theory Spec2Isabelle
  imports Complex_Main
begin

unbundle bit_operations_syntax

section \<open>Python strings and numbers used by the overlay\<close>

text \<open>
  The overlay is one Python file, \<^verbatim>\<open>app.py\<close>, whose delegate object reacts to callbacks
  of the operating system. Text is modelled by \<^typ>\<open>string\<close>; the library operations of
  Python's \<^verbatim>\<open>str\<close> that the delegate calls are written out below for the arguments the
  code passes (one-character needles and separators).
\<close>

datatype error = ValueError

text \<open>\<^verbatim>\<open>s.startswith(p)\<close>\<close>

definition startswith :: "string \<Rightarrow> string \<Rightarrow> bool" where
  "startswith s p = (take (length p) s = p)"

text \<open>\<^verbatim>\<open>s.index(c)\<close>: the position of the first occurrence; Python raises ValueError when
  there is none.\<close>

fun str_index :: "string \<Rightarrow> char \<Rightarrow> error + nat" where
  "str_index [] c = Inl ValueError"
| "str_index (x # xs) c =
     (if x = c then Inr 0
      else (case str_index xs c of Inl e \<Rightarrow> Inl e | Inr i \<Rightarrow> Inr (Suc i)))"

text \<open>\<^verbatim>\<open>s[i:j]\<close> for non-negative bounds; an empty slice when \<open>j \<le> i\<close>.\<close>

definition slice :: "string \<Rightarrow> nat \<Rightarrow> nat \<Rightarrow> string" where
  "slice s i j = take (j - i) (drop i s)"

text \<open>\<^verbatim>\<open>s.split(c)\<close> with an explicit separator: one more piece than separators, empty
  pieces kept, so that \<^verbatim>\<open>"".split(",") == [""]\<close>.\<close>

fun str_split :: "string \<Rightarrow> char \<Rightarrow> string list" where
  "str_split [] c = [[]]"
| "str_split (x # xs) c =
     (if x = c then [] # str_split xs c
      else (case str_split xs c of [] \<Rightarrow> [[x]] | p # ps \<Rightarrow> (x # p) # ps))"

subsection \<open>The built-in \<^verbatim>\<open>float\<close>\<close>

text \<open>
  A Python float is an IEEE binary64 value. The model keeps the three special values and
  represents every finite value by the exact rational that the text denotes: rounding to
  53 bits, overflow to infinity and the sign of zero are left out.
\<close>

datatype pyfloat = Finite rat | PosInf | NegInf | NaN

text \<open>\<^verbatim>\<open>val / 255.0\<close>: the divisor is a finite non-zero constant.\<close>

fun div255 :: "pyfloat \<Rightarrow> pyfloat" where
  "div255 (Finite q) = Finite (q / 255)"
| "div255 PosInf = PosInf"
| "div255 NegInf = NegInf"
| "div255 NaN = NaN"

definition is_digit :: "char \<Rightarrow> bool" where
  "is_digit c = (48 \<le> (of_char c :: nat) \<and> (of_char c :: nat) \<le> 57)"

definition is_space :: "char \<Rightarrow> bool" where
  "is_space c = ((of_char c :: nat) = 32 \<or> (9 \<le> (of_char c :: nat) \<and> (of_char c :: nat) \<le> 13))"

definition to_lower :: "char \<Rightarrow> char" where
  "to_lower c = (if 65 \<le> (of_char c :: nat) \<and> (of_char c :: nat) \<le> 90
                 then char_of ((of_char c :: nat) + 32) else c)"

definition digits_value :: "string \<Rightarrow> nat" where
  "digits_value ds = foldl (\<lambda>n c. 10 * n + ((of_char c :: nat) - 48)) 0 ds"

text \<open>
  Underscores between digits are dropped before parsing. The first argument is the
  previous character (NUL at the start): an underscore has to follow a digit and to be
  followed by one.
\<close>

fun strip_underscores :: "char \<Rightarrow> string \<Rightarrow> string option" where
  "strip_underscores prev [] = (if prev = CHR ''_'' then None else Some [])"
| "strip_underscores prev (c # cs) =
     (if c = CHR ''_'' then
        (if is_digit prev then strip_underscores c cs else None)
      else if prev = CHR ''_'' \<and> \<not> is_digit c then None
      else map_option ((#) c) (strip_underscores c cs))"

text \<open>Leading and trailing white space is removed.\<close>

definition strip_space :: "string \<Rightarrow> string" where
  "strip_space s = rev (dropWhile is_space (rev (dropWhile is_space s)))"

text \<open>An optional sign.\<close>

fun take_sign :: "string \<Rightarrow> bool \<times> string" where
  "take_sign [] = (False, [])"
| "take_sign (c # cs) =
     (if c = CHR ''-'' then (True, cs)
      else if c = CHR ''+'' then (False, cs)
      else (False, c # cs))"

text \<open>The exponent part that may follow the mantissa: nothing, or \<^verbatim>\<open>e\<close> or \<^verbatim>\<open>E\<close>, an
  optional sign and at least one digit up to the end of the text. The result is the
  factor to apply.\<close>

fun exponent :: "string \<Rightarrow> rat option" where
  "exponent [] = Some 1"
| "exponent (c # cs) =
     (if c = CHR ''e'' \<or> c = CHR ''E'' then
        (case take_sign cs of (neg, ds) \<Rightarrow>
           if ds \<noteq> [] \<and> list_all is_digit ds then
             Some (if neg then 1 / 10 ^ digits_value ds else 10 ^ digits_value ds)
           else None)
      else None)"

text \<open>An unsigned decimal number: digits, an optional point with optional digits, with a
  digit on at least one side of the point, and an optional exponent.\<close>

definition unsigned_number :: "string \<Rightarrow> rat option" where
  "unsigned_number s =
     (let ip = takeWhile is_digit s;
          r1 = dropWhile is_digit s;
          has_point = (r1 \<noteq> [] \<and> hd r1 = CHR ''.'');
          fp = (if has_point then takeWhile is_digit (tl r1) else []);
          r2 = (if has_point then dropWhile is_digit (tl r1) else r1)
      in if ip = [] \<and> fp = [] then None
         else (case exponent r2 of
                 None \<Rightarrow> None
               | Some f \<Rightarrow> Some (of_nat (digits_value (ip @ fp)) / 10 ^ length fp * f)))"

text \<open>A signed number, or one of the words \<^verbatim>\<open>inf\<close>, \<^verbatim>\<open>infinity\<close> and \<^verbatim>\<open>nan\<close> in any
  letter case.\<close>

definition signed_number :: "string \<Rightarrow> pyfloat option" where
  "signed_number s =
     (case take_sign s of (neg, u) \<Rightarrow>
        (case unsigned_number u of
           Some q \<Rightarrow> Some (Finite (if neg then - q else q))
         | None \<Rightarrow>
            (let w = map to_lower u in
             if w = ''inf'' \<or> w = ''infinity'' then Some (if neg then NegInf else PosInf)
             else if w = ''nan'' then Some NaN
             else None)))"

text \<open>\<^verbatim>\<open>float(s)\<close> on text of ASCII characters; \<open>None\<close> stands for the ValueError
  that Python raises. (Outside ASCII, Python also accepts the white space and the decimal
  digits of other scripts; the model rejects them.)\<close>

definition py_float :: "string \<Rightarrow> pyfloat option" where
  "py_float s =
     (case strip_underscores (CHR 0x00) s of
        None \<Rightarrow> None
      | Some t \<Rightarrow> (let u = strip_space t in if u = [] then None else signed_number u))"

text \<open>The list comprehension \<^verbatim>\<open>[float(val) for val in pieces]\<close>: the first piece that is
  not a number raises.\<close>

fun floats :: "string list \<Rightarrow> error + pyfloat list" where
  "floats [] = Inr []"
| "floats (p # ps) =
     (case py_float p of
        None \<Rightarrow> Inl ValueError
      | Some v \<Rightarrow> (case floats ps of Inl e \<Rightarrow> Inl e | Inr vs \<Rightarrow> Inr (v # vs)))"

section \<open>The delegate and the system objects it owns\<close>

text \<open>
  \<^verbatim>\<open>AppDelegate\<close> keeps the window, the web view, the drag area, the status item, the
  event tap and its timers as attributes. The record below holds what the delegate's
  methods read and write of them, together with the list \<open>calls\<close> of the outward calls
  made so far, in order (output of \<^verbatim>\<open>print\<close>, messages to \<^verbatim>\<open>NSApp\<close>, the window,
  the web view and the launcher and listener modules).

  Coordinates are \<^verbatim>\<open>CGFloat\<close> values, modelled by exact rationals.
\<close>

record rect =
  rect_x :: rat
  rect_y :: rat
  rect_w :: rat
  rect_h :: rat

definition NSMakeRect :: "rat \<Rightarrow> rat \<Rightarrow> rat \<Rightarrow> rat \<Rightarrow> rect" where
  "NSMakeRect x y w h = \<lparr>rect_x = x, rect_y = y, rect_w = w, rect_h = h\<rparr>"

text \<open>The arguments of \<^verbatim>\<open>NSColor.colorWithCalibratedRed_green_blue_alpha_\<close>.\<close>

record color =
  red :: pyfloat
  green :: pyfloat
  blue :: pyfloat
  alpha :: pyfloat

text \<open>The names imported from \<^verbatim>\<open>constants.py\<close>, which is not part of the sources at
  hand: they are parameters of the model.\<close>

record constants =
  APP_TITLE :: string
  DRAG_AREA_HEIGHT :: rat
  FRAME_SAVE_NAME :: string
  WEBSITE :: string

text \<open>The modifier masks of AppKit.\<close>

definition NSShiftKeyMask :: nat where "NSShiftKeyMask = 131072"


datatype window = OverlayWindow | OtherWindow nat

datatype view = ContentView | DragArea | CloseButton | WebView | OtherView nat

record mouse_event =
  event_window :: "window option"
  locationInWindow :: "rat \<times> rat"

text \<open>The scripts handed to \<^verbatim>\<open>evaluateJavaScript_completionHandler_\<close>, by the key command
  or method that builds them; the focus script embeds the time stamp of its call.\<close>

datatype javascript =
    NewChatScript
  | ToggleSidebarScript
  | OpenSavedInfoScript
  | FocusPromptScript string

datatype target = Self | NSApp

record menu_item =
  item_title :: string
  item_action :: string
  item_key :: string
  item_target :: target

record timer =
  timer_interval :: rat
  timer_selector :: string
  timer_repeats :: bool

record script_message =
  message_name :: string
  message_body :: string

datatype call =
    Print string
  | MakeKeyAndOrderFront
  | ActivateIgnoringOtherApps
  | AppHide
  | AppTerminate
  | EvaluateJavaScript javascript
  | PerformWindowDrag mouse_event
  | LoadRequest string
  | ToFirstResponder string
  | InstallStartup
  | UninstallStartup
  | LoadCustomLauncherTrigger
  | SetCustomLauncherTrigger
  | RemoveWebsiteData
  | EventTapEnable

record delegate =
  window_frame :: rect
  window_ordered_in :: bool
  window_key :: bool
  window_has_delegate :: bool
  app_hidden :: bool
  app_active :: bool
  running :: bool
  drag_area_frame :: rect
  drag_area_background :: "color option"
  close_button_frame :: rect
  webview_frame :: rect
  script_handlers :: "string list"
  status_menu :: "menu_item list"
  event_tap :: "nat option"
  run_loop_sources :: "nat list"
  tap_enabled :: bool
  timers :: "timer list"
  launcher_trigger :: "(nat \<times> nat) option"
  calls :: "call list"

text \<open>The window is borderless, so its content view covers the whole frame:
  \<^verbatim>\<open>self.window.contentView().bounds()\<close>.\<close>

definition content_bounds :: "delegate \<Rightarrow> rect" where
  "content_bounds st = NSMakeRect 0 0 (rect_w (window_frame st)) (rect_h (window_frame st))"

subsection \<open>System calls\<close>

text \<open>What the model keeps of each call into AppKit and Quartz.\<close>

definition print :: "string \<Rightarrow> delegate \<Rightarrow> delegate" where
  "print msg st = st\<lparr>calls := calls st @ [Print msg]\<rparr>"

text \<open>\<^verbatim>\<open>self.window.makeKeyAndOrderFront_(None)\<close>: the window is put on screen in front of
  its level and becomes the key window (\<^verbatim>\<open>canBecomeKeyWindow\<close> answers True).\<close>

definition makeKeyAndOrderFront :: "delegate \<Rightarrow> delegate" where
  "makeKeyAndOrderFront st =
     st\<lparr>window_ordered_in := True, window_key := True,
        calls := calls st @ [MakeKeyAndOrderFront]\<rparr>"

text \<open>\<^verbatim>\<open>NSApp.activateIgnoringOtherApps_(True)\<close>: the application becomes active, which
  ends a hidden state.\<close>

definition activateIgnoringOtherApps :: "delegate \<Rightarrow> delegate" where
  "activateIgnoringOtherApps st =
     st\<lparr>app_hidden := False, app_active := True,
        calls := calls st @ [ActivateIgnoringOtherApps]\<rparr>"

text \<open>\<^verbatim>\<open>NSApp.hide_(None)\<close>: all windows of the application leave the screen and the next
  application becomes active; the windows themselves stay as they are.\<close>

definition NSApp_hide :: "delegate \<Rightarrow> delegate" where
  "NSApp_hide st =
     st\<lparr>app_hidden := True, app_active := False, window_key := False,
        calls := calls st @ [AppHide]\<rparr>"

text \<open>\<^verbatim>\<open>NSApp.terminate_(None)\<close>\<close>

definition NSApp_terminate :: "delegate \<Rightarrow> delegate" where
  "NSApp_terminate st = st\<lparr>running := False, calls := calls st @ [AppTerminate]\<rparr>"

definition evaluateJavaScript :: "javascript \<Rightarrow> delegate \<Rightarrow> delegate" where
  "evaluateJavaScript js st = st\<lparr>calls := calls st @ [EvaluateJavaScript js]\<rparr>"

definition firstResponder :: "string \<Rightarrow> delegate \<Rightarrow> delegate" where
  "firstResponder sel st = st\<lparr>calls := calls st @ [ToFirstResponder sel]\<rparr>"

text \<open>\<^verbatim>\<open>CGEventTapIsEnabled\<close> and \<^verbatim>\<open>CGEventTapEnable(tap, True)\<close>: the flag of the tap is
  kept by the system, which may clear it at any time; enabling sets it.\<close>

definition CGEventTapIsEnabled :: "delegate \<Rightarrow> bool" where
  "CGEventTapIsEnabled st = tap_enabled st"

definition CGEventTapEnable :: "delegate \<Rightarrow> delegate" where
  "CGEventTapEnable st = st\<lparr>tap_enabled := True, calls := calls st @ [EventTapEnable]\<rparr>"

text \<open>The window is on screen when it is ordered in and the application is not hidden.\<close>

definition window_visible :: "delegate \<Rightarrow> bool" where
  "window_visible st = (window_ordered_in st \<and> \<not> app_hidden st)"

section \<open>The delegate's methods\<close>

text \<open>
  Each method takes the state and gives the state after the call. What a method reads
  from the system or from the modules \<^verbatim>\<open>launcher\<close> and \<^verbatim>\<open>listener\<close>, which are not
  part of the sources at hand, is an argument: the text of the sender, the reading
  of \<^verbatim>\<open>time.time()\<close>, the outcome of \<^verbatim>\<open>install_startup()\<close>, the answer of \<^verbatim>\<open>hitTest_\<close>.
  A method keeps its name without the underscore that ends (or starts) it in Python.
\<close>

text \<open>\<^verbatim>\<open>_focus_prompt_area\<close>\<close>

definition focus_prompt_area :: "string \<Rightarrow> delegate \<Rightarrow> delegate" where
  "focus_prompt_area timestamp st =
     evaluateJavaScript (FocusPromptScript timestamp)
       (print (''[DEBUG] _focus_prompt_area called at '' @ timestamp) st)"

text \<open>\<^verbatim>\<open>showWindow_\<close>\<close>

definition showWindow :: "string \<Rightarrow> string \<Rightarrow> delegate \<Rightarrow> delegate" where
  "showWindow sender timestamp st =
     focus_prompt_area timestamp
       (activateIgnoringOtherApps
         (makeKeyAndOrderFront
           (print (''[DEBUG] showWindow_ called (sender: '' @ sender @ '')'') st)))"

text \<open>\<^verbatim>\<open>hideWindow_\<close>\<close>

definition hideWindow :: "delegate \<Rightarrow> delegate" where
  "hideWindow st = NSApp_hide st"

text \<open>\<^verbatim>\<open>goToWebsite_\<close>, \<^verbatim>\<open>clearWebViewData_\<close> (its completion handler runs later) and
  \<^verbatim>\<open>setTrigger_\<close>\<close>

definition goToWebsite :: "constants \<Rightarrow> delegate \<Rightarrow> delegate" where
  "goToWebsite k st = st\<lparr>calls := calls st @ [LoadRequest (WEBSITE k)]\<rparr>"

definition clearWebViewData :: "delegate \<Rightarrow> delegate" where
  "clearWebViewData st = st\<lparr>calls := calls st @ [RemoveWebsiteData]\<rparr>"

definition setTrigger :: "delegate \<Rightarrow> delegate" where
  "setTrigger st = st\<lparr>calls := calls st @ [SetCustomLauncherTrigger]\<rparr>"

text \<open>\<^verbatim>\<open>install_\<close> and \<^verbatim>\<open>uninstall_\<close>; the first argument is what \<^verbatim>\<open>install_startup()\<close>,
  respectively \<^verbatim>\<open>uninstall_startup()\<close>, returns.\<close>

definition install :: "bool \<Rightarrow> delegate \<Rightarrow> delegate" where
  "install install_startup st =
     (let st1 = st\<lparr>calls := calls st @ [InstallStartup]\<rparr> in
      if install_startup then
        NSApp_terminate (print ''Installation successful, exiting.'' st1)
      else print ''Installation unsuccessful.'' st1)"

definition uninstall :: "bool \<Rightarrow> delegate \<Rightarrow> delegate" where
  "uninstall uninstall_startup st =
     (let st1 = st\<lparr>calls := calls st @ [UninstallStartup]\<rparr> in
      if uninstall_startup then NSApp_hide st1 else st1)"



text \<open>\<^verbatim>\<open>handleLocalMouseEvent\<close>, the local monitor of left mouse-down events. The result
  is the event handed on (\<open>None\<close> when it is consumed) and the new state.\<close>

definition performWindowDrag :: "mouse_event \<Rightarrow> delegate \<Rightarrow> delegate" where
  "performWindowDrag event st = st\<lparr>calls := calls st @ [PerformWindowDrag event]\<rparr>"

definition handleLocalMouseEvent ::
  "(rat \<times> rat \<Rightarrow> view option) \<Rightarrow> string \<Rightarrow> mouse_event \<Rightarrow> delegate
     \<Rightarrow> mouse_event option \<times> delegate" where
  "handleLocalMouseEvent hitTest timestamp event st =
     (if event_window event = Some OverlayWindow then
        (let click_location = locationInWindow event;
             hit_view = hitTest click_location
         in if hit_view = Some DragArea then
              (None, performWindowDrag event (showWindow ''None'' timestamp st))
            else (Some event, st))
      else (Some event, st))"

text \<open>\<^verbatim>\<open>windowDidResize_\<close>\<close>

definition windowDidResize :: "constants \<Rightarrow> delegate \<Rightarrow> delegate" where
  "windowDidResize k st =
     (let bounds = content_bounds st;
          w = rect_w bounds;
          h = rect_h bounds
      in st\<lparr>drag_area_frame := NSMakeRect 0 (h - DRAG_AREA_HEIGHT k) w (DRAG_AREA_HEIGHT k),
            webview_frame := NSMakeRect 0 0 w (h - DRAG_AREA_HEIGHT k)\<rparr>)"

text \<open>\<^verbatim>\<open>userContentController_didReceiveScriptMessage_\<close>. An exception that leaves the
  method is the result \<open>Inl\<close>. Unpacking \<^verbatim>\<open>r, g, b\<close> from fewer than three values raises
  ValueError as well.\<close>

definition userContentController_didReceiveScriptMessage ::
  "script_message \<Rightarrow> delegate \<Rightarrow> error + delegate" where
  "userContentController_didReceiveScriptMessage message st =
     (if message_name message = ''backgroundColorHandler'' then
        (let bg_color_str = message_body message in
         if startswith bg_color_str ''rgb'' \<and> CHR ''('' \<in> set bg_color_str
            \<and> CHR '')'' \<in> set bg_color_str
         then
           (case str_index bg_color_str (CHR ''('') of
              Inl e \<Rightarrow> Inl e
            | Inr i \<Rightarrow>
           (case str_index bg_color_str (CHR '')'') of
              Inl e \<Rightarrow> Inl e
            | Inr j \<Rightarrow>
           (case floats (str_split (slice bg_color_str (i + 1) j) (CHR '','')) of
              Inl e \<Rightarrow> Inl e
            | Inr rgb_values \<Rightarrow>
           (case map div255 (take 3 rgb_values) of
              [r, g, b] \<Rightarrow>
                Inr (st\<lparr>drag_area_background :=
                          Some \<lparr>red = r, green = g, blue = b, alpha = Finite 1\<rparr>\<rparr>)
            | _ \<Rightarrow> Inl ValueError))))
         else Inr st)
      else if message_name message = ''debugLogger'' then
        Inr (print (''[JS DEBUG] '' @ message_body message) st)
      else Inr st)"

text \<open>\<^verbatim>\<open>webView_didFinishNavigation_\<close> and \<^verbatim>\<open>_focusPromptTimerFired_\<close>\<close>

definition focus_timer :: timer where
  "focus_timer =
     \<lparr>timer_interval = 1 / 10, timer_selector = ''_focusPromptTimerFired:'',
      timer_repeats = False\<rparr>"

definition webView_didFinishNavigation :: "delegate \<Rightarrow> delegate" where
  "webView_didFinishNavigation st =
     (print ''[DEBUG] Navigation finished, scheduling focus timer'' st)
       \<lparr>timers := timers st @ [focus_timer]\<rparr>"

definition focusPromptTimerFired :: "string \<Rightarrow> delegate \<Rightarrow> delegate" where
  "focusPromptTimerFired timestamp st =
     focus_prompt_area timestamp (print ''[DEBUG] Focus timer fired after navigation'' st)"

text \<open>\<^verbatim>\<open>monitorEventTap_\<close>; the attribute \<^verbatim>\<open>event_tap\<close> exists once the application has
  launched, and a tap handle is true.\<close>

definition monitorEventTap :: "delegate \<Rightarrow> delegate" where
  "monitorEventTap st =
     (if event_tap st \<noteq> None then
        (if \<not> CGEventTapIsEnabled st then
           CGEventTapEnable (print ''Event tap was disabled, re-enabling...'' st)
         else st)
      else st)"

text \<open>A timer that fires sends its selector to the delegate; a timer that does not
  repeat is removed from the run loop before.\<close>

definition fire_timer :: "string \<Rightarrow> timer \<Rightarrow> delegate \<Rightarrow> delegate" where
  "fire_timer timestamp t st =
     (let st1 = (if timer_repeats t then st else st\<lparr>timers := remove1 t (timers st)\<rparr>) in
      if timer_selector t = ''monitorEventTap:'' then monitorEventTap st1
      else if timer_selector t = ''_focusPromptTimerFired:'' then
        focusPromptTimerFired timestamp st1
      else st1)"

subsection \<open>Launch\<close>

text \<open>
  What \<^verbatim>\<open>applicationDidFinishLaunching_\<close> finds when it runs: the window frame saved
  under the autosave name (restored by \<^verbatim>\<open>setFrameAutosaveName_\<close>), the trigger read by
  \<^verbatim>\<open>load_custom_launcher_trigger()\<close>, the handle returned by \<^verbatim>\<open>CGEventTapCreate\<close>
  (\<open>None\<close> when the system refuses the tap) and the clock.
\<close>

record launch_env =
  saved_frame :: "rect option"
  stored_trigger :: "(nat \<times> nat) option"
  tap_created :: "nat option"
  launch_time :: string

definition monitor_timer :: timer where
  "monitor_timer =
     \<lparr>timer_interval = 1, timer_selector = ''monitorEventTap:'', timer_repeats = True\<rparr>"

definition menu_items :: "constants \<Rightarrow> menu_item list" where
  "menu_items k =
     [\<lparr>item_title = ''Show '' @ APP_TITLE k, item_action = ''showWindow:'',
        item_key = [], item_target = Self\<rparr>,
      \<lparr>item_title = ''Hide '' @ APP_TITLE k, item_action = ''hideWindow:'',
        item_key = ''h'', item_target = Self\<rparr>,
      \<lparr>item_title = ''Home'', item_action = ''goToWebsite:'',
        item_key = ''g'', item_target = Self\<rparr>,
      \<lparr>item_title = ''Clear Web Cache'', item_action = ''clearWebViewData:'',
        item_key = [], item_target = Self\<rparr>,
      \<lparr>item_title = ''Set New Trigger'', item_action = ''setTrigger:'',
        item_key = [], item_target = Self\<rparr>,
      \<lparr>item_title = ''Install Autolauncher'', item_action = ''install:'',
        item_key = [], item_target = Self\<rparr>,
      \<lparr>item_title = ''Uninstall Autolauncher'', item_action = ''uninstall:'',
        item_key = [], item_target = Self\<rparr>,
      \<lparr>item_title = ''Quit'', item_action = ''terminate:'',
        item_key = ''q'', item_target = NSApp\<rparr>]"

text \<open>The state once the window, its views, the web view and the status item are set
  up, before the event tap is created. The web view is created with the frame
  \<open>((0, 0), (970, 750))\<close> and is given its final frame when it is inserted below the
  drag area.\<close>

definition views_set_up :: "constants \<Rightarrow> launch_env \<Rightarrow> delegate" where
  "views_set_up k env =
     (let frame = (case saved_frame env of
                     None \<Rightarrow> NSMakeRect 500 200 970 750
                   | Some f \<Rightarrow> f);
          w = rect_w frame;
          h = rect_h frame
      in \<lparr>window_frame = frame,
          window_ordered_in = False,
          window_key = False,
          window_has_delegate = True,
          app_hidden = False,
          app_active = False,
          running = True,
          drag_area_frame = NSMakeRect 0 (h - DRAG_AREA_HEIGHT k) w (DRAG_AREA_HEIGHT k),
          drag_area_background = None,
          close_button_frame = NSMakeRect 5 5 20 20,
          webview_frame = NSMakeRect 0 0 w (h - DRAG_AREA_HEIGHT k),
          script_handlers = [''backgroundColorHandler'', ''debugLogger''],
          status_menu = menu_items k,
          event_tap = None,
          run_loop_sources = [],
          tap_enabled = False,
          timers = [],
          launcher_trigger = stored_trigger env,
          calls = [LoadRequest (WEBSITE k), LoadCustomLauncherTrigger]\<rparr>)"

definition applicationDidFinishLaunching :: "constants \<Rightarrow> launch_env \<Rightarrow> delegate" where
  "applicationDidFinishLaunching k env =
     (let st0 = (views_set_up k env)\<lparr>event_tap := tap_created env\<rparr>;
          st1 = (case event_tap st0 of
                   Some tap \<Rightarrow>
                     print ''Event tap successfully integrated into main run loop''
                       ((CGEventTapEnable (st0\<lparr>run_loop_sources := [tap]\<rparr>))
                          \<lparr>timers := [monitor_timer]\<rparr>)
                 | None \<Rightarrow>
                     print ''Failed to create event tap. Check Accessibility permissions.'' st0)
      in showWindow ''None'' (launch_time env) st1)"

text \<open>Choosing an item of the status menu sends the item's action to its target. The
  record holds what the methods read from outside when they run.\<close>

record action_env =
  action_sender :: string
  action_time :: string
  install_result :: bool
  uninstall_result :: bool

definition send_action :: "constants \<Rightarrow> action_env \<Rightarrow> menu_item \<Rightarrow> delegate \<Rightarrow> delegate" where
  "send_action k e item st =
     (case item_target item of
        NSApp \<Rightarrow> (if item_action item = ''terminate:'' then NSApp_terminate st else st)
      | Self \<Rightarrow>
         (if item_action item = ''showWindow:'' then
            showWindow (action_sender e) (action_time e) st
          else if item_action item = ''hideWindow:'' then hideWindow st
          else if item_action item = ''goToWebsite:'' then goToWebsite k st
          else if item_action item = ''clearWebViewData:'' then clearWebViewData st
          else if item_action item = ''setTrigger:'' then setTrigger st
          else if item_action item = ''install:'' then install (install_result e) st
          else if item_action item = ''uninstall:'' then uninstall (uninstall_result e) st
          else st))"

text \<open>The system resizes the window and then posts the notification that the delegate
  observes.\<close>

definition window_resized :: "constants \<Rightarrow> rect \<Rightarrow> delegate \<Rightarrow> delegate" where
  "window_resized k frame st = windowDidResize k (st\<lparr>window_frame := frame\<rparr>)"

text \<open>The calls made between two states.\<close>

definition new_calls :: "delegate \<Rightarrow> delegate \<Rightarrow> call list" where
  "new_calls st st' = drop (length (calls st)) (calls st')"

subsection \<open>Auxiliary notions for the properties\<close>


text \<open>The system clears the flag of the event tap.\<close>

definition tap_disabled_by_system :: "delegate \<Rightarrow> delegate" where
  "tap_disabled_by_system st = st\<lparr>tap_enabled := False\<rparr>"



text \<open>The layout of the content view: the drag area is the strip of the fixed height
  along the top edge over the full width, and the web view fills the rest below it.\<close>

definition layout_ok :: "constants \<Rightarrow> delegate \<Rightarrow> bool" where
  "layout_ok k st =
     (let bounds = content_bounds st; d = drag_area_frame st; v = webview_frame st in
      rect_x d = rect_x bounds \<and> rect_w d = rect_w bounds
      \<and> rect_h d = DRAG_AREA_HEIGHT k
      \<and> rect_y d + rect_h d = rect_y bounds + rect_h bounds
      \<and> rect_x v = rect_x bounds \<and> rect_w v = rect_w bounds
      \<and> rect_y v = rect_y bounds
      \<and> rect_y v + rect_h v = rect_y d)"

text \<open>Sample values for concrete runs.\<close>

definition sample_constants :: constants where
  "sample_constants =
     \<lparr>APP_TITLE = ''Gemini'', DRAG_AREA_HEIGHT = 30, FRAME_SAVE_NAME = ''GeminiWindowFrame'',
      WEBSITE = ''https://gemini.google.com''\<rparr>"

definition sample_launch :: launch_env where
  "sample_launch =
     \<lparr>saved_frame = None, stored_trigger = None, tap_created = Some 1,
      launch_time = ''1700000000.0''\<rparr>"

definition sample_launch_no_tap :: launch_env where
  "sample_launch_no_tap = sample_launch\<lparr>tap_created := None\<rparr>"

definition sample_state :: delegate where
  "sample_state = applicationDidFinishLaunching sample_constants sample_launch"

definition sample_actions :: action_env where
  "sample_actions =
     \<lparr>action_sender = ''<NSMenuItem>'', action_time = ''1700000001.0'',
      install_result = False, uninstall_result = False\<rparr>"

section \<open>Properties\<close>

subsection \<open>The colour message\<close>





















text \<open>
  A body that passes the test and holds no three numbers between its first opening and
  its first closing parenthesis is not ignored: the method raises ValueError, before the
  colour is touched.
\<close>

lemma color_message_bad_content_raises:
  "userContentController_didReceiveScriptMessage
     \<lparr>message_name = ''backgroundColorHandler'', message_body = ''rgb)(''\<rparr> st = Inl ValueError"
  "userContentController_didReceiveScriptMessage
     \<lparr>message_name = ''backgroundColorHandler'', message_body = ''rgb(1, 2)''\<rparr> st = Inl ValueError"
  by (simp_all add: userContentController_didReceiveScriptMessage_def startswith_def slice_def
      py_float_def strip_space_def is_space_def is_digit_def signed_number_def unsigned_number_def
      digits_value_def to_lower_def)

subsection \<open>Facts shared by the properties of the delegate\<close>

lemmas sys_defs = print_def makeKeyAndOrderFront_def activateIgnoringOtherApps_def
  NSApp_hide_def NSApp_terminate_def evaluateJavaScript_def firstResponder_def
  CGEventTapIsEnabled_def CGEventTapEnable_def performWindowDrag_def

lemmas method_defs = focus_prompt_area_def showWindow_def hideWindow_def
  focusPromptTimerFired_def monitorEventTap_def

lemmas launch_defs = applicationDidFinishLaunching_def views_set_up_def Let_def

lemmas sample_defs = sample_state_def sample_launch_def sample_launch_no_tap_def
  sample_constants_def sample_actions_def

lemma new_calls_append [simp]: "calls st' = calls st @ xs \<Longrightarrow> new_calls st st' = xs"
  by (simp add: new_calls_def)

lemma sample_state_tap:
  "event_tap sample_state = Some 1" "tap_enabled sample_state"
  "timers sample_state = [monitor_timer]"
  by (simp_all add: sample_defs launch_defs sys_defs method_defs)

lemma sample_state_window:
  "window_has_delegate sample_state" "running sample_state" "window_visible sample_state"
  "window_frame sample_state = NSMakeRect 500 200 970 750"
  "launcher_trigger sample_state = None"
  by (simp_all add: sample_defs launch_defs sys_defs method_defs window_visible_def)

subsection \<open>The liveness check of the event tap\<close>

lemma monitorEventTap_disabled:
  "event_tap st \<noteq> None \<Longrightarrow> \<not> tap_enabled st \<Longrightarrow>
   monitorEventTap st =
     st\<lparr>tap_enabled := True,
        calls := calls st @ [Print ''Event tap was disabled, re-enabling...'', EventTapEnable]\<rparr>"
  by (simp add: monitorEventTap_def sys_defs)

lemma monitorEventTap_enabled: "tap_enabled st \<Longrightarrow> monitorEventTap st = st"
  by (simp add: monitorEventTap_def sys_defs)

lemma fire_monitor_timer: "fire_timer ts monitor_timer st = monitorEventTap st"
  by (simp add: fire_timer_def monitor_timer_def)

text \<open>
  Claim C3. When the event tap is created, launch schedules one timer, with an interval
  of one second, repeating, whose firing runs \<^verbatim>\<open>monitorEventTap_\<close>. A firing that finds
  a tap whose flag is cleared prints a line and enables the tap, so that the flag is set
  afterwards, and leaves the timer and the tap in place; a firing that finds the flag set
  changes nothing.
\<close>

theorem event_tap_liveness_check:
  "(tap_created env = Some tap \<longrightarrow>
      timers (applicationDidFinishLaunching k env) = [monitor_timer]
      \<and> event_tap (applicationDidFinishLaunching k env) = Some tap
      \<and> tap_enabled (applicationDidFinishLaunching k env))
   \<and> timer_interval monitor_timer = 1 \<and> timer_repeats monitor_timer
   \<and> fire_timer ts monitor_timer st = monitorEventTap st
   \<and> (event_tap st \<noteq> None \<and> \<not> tap_enabled st \<longrightarrow>
        tap_enabled (monitorEventTap st)
        \<and> new_calls st (monitorEventTap st)
            = [Print ''Event tap was disabled, re-enabling...'', EventTapEnable]
        \<and> timers (monitorEventTap st) = timers st
        \<and> event_tap (monitorEventTap st) = event_tap st)
   \<and> (tap_enabled st \<longrightarrow> monitorEventTap st = st)"
proof -
  have launch: "tap_created env = Some tap \<longrightarrow>
      timers (applicationDidFinishLaunching k env) = [monitor_timer]
      \<and> event_tap (applicationDidFinishLaunching k env) = Some tap
      \<and> tap_enabled (applicationDidFinishLaunching k env)"
    by (simp add: launch_defs sys_defs method_defs)
  have t: "timer_interval monitor_timer = 1 \<and> timer_repeats monitor_timer"
    by (simp add: monitor_timer_def)
  have dis: "event_tap st \<noteq> None \<and> \<not> tap_enabled st \<longrightarrow>
        tap_enabled (monitorEventTap st)
        \<and> new_calls st (monitorEventTap st)
            = [Print ''Event tap was disabled, re-enabling...'', EventTapEnable]
        \<and> timers (monitorEventTap st) = timers st
        \<and> event_tap (monitorEventTap st) = event_tap st"
    by (simp add: monitorEventTap_disabled)
  have en: "tap_enabled st \<longrightarrow> monitorEventTap st = st"
    by (simp add: monitorEventTap_enabled)
  from launch t dis en fire_monitor_timer show ?thesis by blast
qed

theorem event_tap_liveness_check_witness:
  "timers sample_state = [monitor_timer]
   \<and> \<not> tap_enabled (tap_disabled_by_system sample_state)
   \<and> tap_enabled (fire_timer ''1700000002.0'' monitor_timer (tap_disabled_by_system sample_state))
   \<and> fire_timer ''1700000003.0'' monitor_timer sample_state = sample_state"
proof -
  have a: "tap_created sample_launch = Some 1" by (simp add: sample_launch_def)
  have b: "event_tap (tap_disabled_by_system sample_state) \<noteq> None
           \<and> \<not> tap_enabled (tap_disabled_by_system sample_state)"
    by (simp add: tap_disabled_by_system_def sample_state_tap)
  have c: "tap_enabled sample_state" by (rule sample_state_tap)
  show ?thesis
    using event_tap_liveness_check[of sample_launch 1 sample_constants "''1700000002.0''"
            "tap_disabled_by_system sample_state"]
          event_tap_liveness_check[of sample_launch 1 sample_constants "''1700000003.0''"
            sample_state]
          a b c
    by (simp add: sample_state_def)
qed

subsection \<open>Installing and removing the autolauncher\<close>




subsection \<open>Launch without an event tap\<close>

text \<open>
  Claim C5. When \<^verbatim>\<open>CGEventTapCreate\<close> returns no handle, launch prints the failure, adds
  no run-loop source, schedules no timer and enables no tap, and goes on to show the
  window: the calls of launch are exactly the ones listed, the application keeps
  running, the window is on screen and key, and the status menu is in place, its first
  two items leading to \<^verbatim>\<open>showWindow_\<close> and \<^verbatim>\<open>hideWindow_\<close>.
\<close>

theorem launch_without_event_tap:
  assumes "tap_created env = None"
  shows "calls (applicationDidFinishLaunching k env) =
           [LoadRequest (WEBSITE k), LoadCustomLauncherTrigger,
            Print ''Failed to create event tap. Check Accessibility permissions.'',
            Print ''[DEBUG] showWindow_ called (sender: None)'',
            MakeKeyAndOrderFront, ActivateIgnoringOtherApps,
            Print (''[DEBUG] _focus_prompt_area called at '' @ launch_time env),
            EvaluateJavaScript (FocusPromptScript (launch_time env))]
         \<and> event_tap (applicationDidFinishLaunching k env) = None
         \<and> run_loop_sources (applicationDidFinishLaunching k env) = []
         \<and> timers (applicationDidFinishLaunching k env) = []
         \<and> running (applicationDidFinishLaunching k env)
         \<and> window_visible (applicationDidFinishLaunching k env)
         \<and> window_key (applicationDidFinishLaunching k env)
         \<and> status_menu (applicationDidFinishLaunching k env) = menu_items k
         \<and> send_action k e (menu_items k ! 0) (applicationDidFinishLaunching k env)
             = showWindow (action_sender e) (action_time e) (applicationDidFinishLaunching k env)
         \<and> send_action k e (menu_items k ! 1) (applicationDidFinishLaunching k env)
             = hideWindow (applicationDidFinishLaunching k env)"
proof -
  define st where "st = applicationDidFinishLaunching k env"
  have m: "send_action k e (menu_items k ! 0) st = showWindow (action_sender e) (action_time e) st"
    "send_action k e (menu_items k ! 1) st = hideWindow st"
    by (simp_all add: send_action_def menu_items_def)
  have l: "calls st =
           [LoadRequest (WEBSITE k), LoadCustomLauncherTrigger,
            Print ''Failed to create event tap. Check Accessibility permissions.'',
            Print ''[DEBUG] showWindow_ called (sender: None)'',
            MakeKeyAndOrderFront, ActivateIgnoringOtherApps,
            Print (''[DEBUG] _focus_prompt_area called at '' @ launch_time env),
            EvaluateJavaScript (FocusPromptScript (launch_time env))]"
    "event_tap st = None" "run_loop_sources st = []" "timers st = []" "running st"
    "window_visible st" "window_key st" "status_menu st = menu_items k"
    using assms unfolding st_def
    by (simp_all add: launch_defs sys_defs method_defs window_visible_def)
  from m l show ?thesis unfolding st_def by simp
qed

theorem launch_without_event_tap_witness:
  "timers (applicationDidFinishLaunching sample_constants sample_launch_no_tap) = []
   \<and> run_loop_sources (applicationDidFinishLaunching sample_constants sample_launch_no_tap) = []
   \<and> window_visible (applicationDidFinishLaunching sample_constants sample_launch_no_tap)
   \<and> Print ''Failed to create event tap. Check Accessibility permissions.''
       \<in> set (calls (applicationDidFinishLaunching sample_constants sample_launch_no_tap))"
proof -
  have a: "tap_created sample_launch_no_tap = None"
    by (simp add: sample_launch_no_tap_def)
  show ?thesis
    using launch_without_event_tap[OF a, of sample_constants sample_actions] by simp
qed

subsection \<open>Showing and hiding the window\<close>

text \<open>
  Claim C6. Every call of \<^verbatim>\<open>showWindow_\<close> orders the window front and makes it key,
  activates the application and hands the focus script to the web view, in this order.
  A finished navigation schedules a timer of 0.1 seconds that does not repeat; when it
  fires, the same \<^verbatim>\<open>_focus_prompt_area\<close> runs again, with the time of the firing, and the
  timer is gone.
\<close>

theorem show_focuses_prompt:
  "new_calls st (showWindow sender ts st) =
     [Print (''[DEBUG] showWindow_ called (sender: '' @ sender @ '')''),
      MakeKeyAndOrderFront, ActivateIgnoringOtherApps,
      Print (''[DEBUG] _focus_prompt_area called at '' @ ts),
      EvaluateJavaScript (FocusPromptScript ts)]
   \<and> window_key (showWindow sender ts st)
   \<and> window_visible (showWindow sender ts st)
   \<and> app_active (showWindow sender ts st)
   \<and> timers (webView_didFinishNavigation st) = timers st @ [focus_timer]
   \<and> timer_interval focus_timer = 1 / 10
   \<and> \<not> timer_repeats focus_timer
   \<and> new_calls st' (fire_timer ts' focus_timer st') =
       [Print ''[DEBUG] Focus timer fired after navigation'',
        Print (''[DEBUG] _focus_prompt_area called at '' @ ts'),
        EvaluateJavaScript (FocusPromptScript ts')]
   \<and> timers (fire_timer ts' focus_timer st') = remove1 focus_timer (timers st')"
  by (simp add: sys_defs method_defs window_visible_def webView_didFinishNavigation_def
      fire_timer_def focus_timer_def)

theorem show_focuses_prompt_witness:
  "EvaluateJavaScript (FocusPromptScript ''1700000004.0'')
     \<in> set (new_calls (hideWindow sample_state)
                (showWindow ''None'' ''1700000004.0'' (hideWindow sample_state)))
   \<and> window_visible (showWindow ''None'' ''1700000004.0'' (hideWindow sample_state))
   \<and> timers (fire_timer ''1700000005.0'' focus_timer (webView_didFinishNavigation sample_state))
       = timers sample_state"
proof -
  have a: "EvaluateJavaScript (FocusPromptScript ''1700000004.0'')
     \<in> set (new_calls (hideWindow sample_state)
                (showWindow ''None'' ''1700000004.0'' (hideWindow sample_state)))
     \<and> window_visible (showWindow ''None'' ''1700000004.0'' (hideWindow sample_state))"
    using show_focuses_prompt[of "hideWindow sample_state" "''None''" "''1700000004.0''"
        "webView_didFinishNavigation sample_state" "''1700000005.0''"]
    by simp
  have b: "timers (fire_timer ''1700000005.0'' focus_timer
                     (webView_didFinishNavigation sample_state))
           = remove1 focus_timer (timers sample_state @ [focus_timer])"
    using show_focuses_prompt[of sample_state "''None''" "''1700000004.0''"
        "webView_didFinishNavigation sample_state" "''1700000005.0''"]
    by simp
  have c: "remove1 focus_timer (timers sample_state @ [focus_timer]) = timers sample_state"
    by (simp add: sample_state_tap focus_timer_def monitor_timer_def)
  from a b c show ?thesis by simp
qed

text \<open>
  Claim C7. A left mouse-down event of the overlay window that hits the drag area is
  answered by \<^verbatim>\<open>showWindow_\<close> first (the window comes to the front and becomes key) and
  by the start of the window drag with the same event after it, and the event is
  consumed. Any other left mouse-down event is handed on as it came and nothing changes.
\<close>

theorem drag_area_click:
  "(event_window ev = Some OverlayWindow \<and> hitTest (locationInWindow ev) = Some DragArea \<longrightarrow>
      handleLocalMouseEvent hitTest ts ev st
        = (None, performWindowDrag ev (showWindow ''None'' ts st))
      \<and> new_calls st (snd (handleLocalMouseEvent hitTest ts ev st)) =
          [Print ''[DEBUG] showWindow_ called (sender: None)'',
           MakeKeyAndOrderFront, ActivateIgnoringOtherApps,
           Print (''[DEBUG] _focus_prompt_area called at '' @ ts),
           EvaluateJavaScript (FocusPromptScript ts),
           PerformWindowDrag ev]
      \<and> window_key (snd (handleLocalMouseEvent hitTest ts ev st))
      \<and> window_visible (snd (handleLocalMouseEvent hitTest ts ev st)))
   \<and> (\<not> (event_window ev = Some OverlayWindow
          \<and> hitTest (locationInWindow ev) = Some DragArea) \<longrightarrow>
      handleLocalMouseEvent hitTest ts ev st = (Some ev, st))"
  by (auto simp: handleLocalMouseEvent_def sys_defs method_defs window_visible_def)

theorem drag_area_click_witness:
  "handleLocalMouseEvent (\<lambda>p. Some DragArea) ''1700000006.0''
      \<lparr>event_window = Some OverlayWindow, locationInWindow = (100, 740)\<rparr>
      (hideWindow sample_state)
    = (None,
       performWindowDrag \<lparr>event_window = Some OverlayWindow, locationInWindow = (100, 740)\<rparr>
         (showWindow ''None'' ''1700000006.0'' (hideWindow sample_state)))
   \<and> handleLocalMouseEvent (\<lambda>p. Some WebView) ''1700000006.0''
      \<lparr>event_window = Some OverlayWindow, locationInWindow = (100, 300)\<rparr> sample_state
    = (Some \<lparr>event_window = Some OverlayWindow, locationInWindow = (100, 300)\<rparr>, sample_state)"
  using drag_area_click[of "\<lparr>event_window = Some OverlayWindow, locationInWindow = (100, 740)\<rparr>"
          "\<lambda>p. Some DragArea" "''1700000006.0''" "hideWindow sample_state"]
        drag_area_click[of "\<lparr>event_window = Some OverlayWindow, locationInWindow = (100, 300)\<rparr>"
          "\<lambda>p. Some WebView" "''1700000006.0''" sample_state]
  by simp

text \<open>
  Claim C8. \<^verbatim>\<open>hideWindow_\<close> makes one call, \<^verbatim>\<open>NSApp.hide_\<close>: the application is hidden
  and inactive and the window is no longer key; the frame of the window, its place in
  the window list, the trigger and everything else stay as they were, and the
  application keeps running. Showing and then hiding leaves the window off screen with
  the frame and the trigger it had.
\<close>

theorem hide_keeps_window:
  "hideWindow st =
     st\<lparr>app_hidden := True, app_active := False, window_key := False,
        calls := calls st @ [AppHide]\<rparr>
   \<and> window_frame (hideWindow st) = window_frame st
   \<and> window_ordered_in (hideWindow st) = window_ordered_in st
   \<and> launcher_trigger (hideWindow st) = launcher_trigger st
   \<and> running (hideWindow st) = running st
   \<and> \<not> window_visible (hideWindow st)
   \<and> \<not> window_key (hideWindow st)
   \<and> \<not> window_visible (hideWindow (showWindow sender ts st))
   \<and> window_frame (hideWindow (showWindow sender ts st)) = window_frame st
   \<and> launcher_trigger (hideWindow (showWindow sender ts st)) = launcher_trigger st
   \<and> running (hideWindow (showWindow sender ts st)) = running st"
  by (simp add: sys_defs method_defs window_visible_def)

theorem hide_keeps_window_witness:
  "\<not> window_visible (hideWindow (showWindow ''None'' ''1700000007.0'' sample_state))
   \<and> window_frame (hideWindow (showWindow ''None'' ''1700000007.0'' sample_state))
       = NSMakeRect 500 200 970 750
   \<and> launcher_trigger (hideWindow (showWindow ''None'' ''1700000007.0'' sample_state)) = None
   \<and> running (hideWindow (showWindow ''None'' ''1700000007.0'' sample_state))"
  using hide_keeps_window[of sample_state "''None''" "''1700000007.0''"]
  by (simp add: sample_state_window)

subsection \<open>Key commands\<close>



subsection \<open>The layout of the content view\<close>

text \<open>
  Claim C10. After launch, and after the resize handler has run for any new frame of the
  window and whatever the frames of the two views were before, the drag area is the
  strip of height \<^verbatim>\<open>DRAG_AREA_HEIGHT\<close> along the top edge of the content view over its full
  width, and the web view spans the full width from the bottom edge up to the drag area.
\<close>

theorem layout_invariant:
  "layout_ok k (applicationDidFinishLaunching k env)
   \<and> layout_ok k (windowDidResize k st)
   \<and> layout_ok k (window_resized k frame st)"
  by (simp add: layout_ok_def applicationDidFinishLaunching_def views_set_up_def Let_def
      windowDidResize_def window_resized_def content_bounds_def NSMakeRect_def
      sys_defs method_defs split: option.split)

theorem layout_invariant_witness:
  "layout_ok sample_constants sample_state
   \<and> drag_area_frame (window_resized sample_constants (NSMakeRect 0 0 640 480) sample_state)
       = NSMakeRect 0 450 640 30
   \<and> webview_frame (window_resized sample_constants (NSMakeRect 0 0 640 480) sample_state)
       = NSMakeRect 0 0 640 450"
proof -
  have "layout_ok sample_constants (window_resized sample_constants (NSMakeRect 0 0 640 480) sample_state)"
    using layout_invariant[of sample_constants sample_launch sample_state "NSMakeRect 0 0 640 480"]
    by simp
  moreover have "layout_ok sample_constants sample_state"
    using layout_invariant[of sample_constants sample_launch sample_state "NSMakeRect 0 0 640 480"]
    by (simp add: sample_state_def)
  moreover have "drag_area_frame (window_resized sample_constants (NSMakeRect 0 0 640 480) sample_state)
       = NSMakeRect 0 450 640 30
   \<and> webview_frame (window_resized sample_constants (NSMakeRect 0 0 640 480) sample_state)
       = NSMakeRect 0 0 640 450"
    by (simp add: window_resized_def windowDidResize_def content_bounds_def NSMakeRect_def
        sample_constants_def)
  ultimately show ?thesis by simp
qed

end
